theory Spec2Isabelle
  imports Complex_Main
begin

section \<open>Python strings\<close>

text \<open>
  A Python \<open>str\<close> is modelled as a \<open>string\<close> holding its UTF-8 bytes. The braces,
  quotes and digits the code looks for are ASCII, so \<open>find\<close>, \<open>rfind\<close> and slicing
  agree with Python's on code points. \<open>str.strip()\<close> removes the code points for
  which \<open>str.isspace()\<close> holds: \<open>ws_codes\<close> lists their encodings, and
  \<open>space_width\<close> gives the byte length of such a code point at the head of a string
  (0 when there is none).
\<close>

definition ws_codes :: "string list" where
  "ws_codes =
     map (\<lambda>n. [char_of n]) [9, 10, 11, 12, 13, 28, 29, 30, 31, 32 :: nat]
     @ [[CHR 0xC2, CHR 0x85], [CHR 0xC2, CHR 0xA0], [CHR 0xE1, CHR 0x9A, CHR 0x80]]
     @ map (\<lambda>n. [CHR 0xE2, CHR 0x80, char_of n]) [0x80 ..< 0x8B :: nat]
     @ [[CHR 0xE2, CHR 0x80, CHR 0xA8], [CHR 0xE2, CHR 0x80, CHR 0xA9],
        [CHR 0xE2, CHR 0x80, CHR 0xAF], [CHR 0xE2, CHR 0x81, CHR 0x9F],
        [CHR 0xE3, CHR 0x80, CHR 0x80]]"

definition space_width :: "string \<Rightarrow> nat" where
  "space_width s =
     (case find (\<lambda>w. take (length w) s = w) ws_codes of
        None \<Rightarrow> 0
      | Some w \<Rightarrow> length w)"

function lstrip :: "string \<Rightarrow> string" where
  "lstrip s = (if space_width s = 0 then s else lstrip (drop (space_width s) s))"
  by pat_completeness auto
termination
proof (relation "measure length")
  show "wf (measure length)" by simp
next
  fix s :: string assume a: "space_width s \<noteq> 0"
  have "space_width [] = 0"
    by (simp add: space_width_def ws_codes_def upt_rec)
  with a have "s \<noteq> []" by auto
  then show "(drop (space_width s) s, s) \<in> measure length"
    using a by simp
qed

declare lstrip.simps [simp del]

definition trailing_width :: "string \<Rightarrow> nat" where
  "trailing_width s =
     (case find (\<lambda>w. length w \<le> length s \<and> drop (length s - length w) s = w) ws_codes of
        None \<Rightarrow> 0
      | Some w \<Rightarrow> length w)"

function rstrip :: "string \<Rightarrow> string" where
  "rstrip s = (if trailing_width s = 0 then s
               else rstrip (take (length s - trailing_width s) s))"
  by pat_completeness auto
termination
proof (relation "measure length")
  show "wf (measure length)" by simp
next
  fix s :: string assume a: "trailing_width s \<noteq> 0"
  have "trailing_width [] = 0"
    by (simp add: trailing_width_def ws_codes_def upt_rec)
  with a have "s \<noteq> []" by auto
  then show "(take (length s - trailing_width s) s, s) \<in> measure length"
    using a by simp
qed

declare rstrip.simps [simp del]

definition strip :: "string \<Rightarrow> string" where
  "strip s = rstrip (lstrip s)"

text \<open>\<open>str.find(c)\<close> and \<open>str.rfind(c)\<close> for a one-character needle: the index of the
  first (last) occurrence, or -1.\<close>

fun find_char :: "char \<Rightarrow> string \<Rightarrow> int" where
  "find_char c [] = -1"
| "find_char c (x # xs) =
     (if x = c then 0
      else (let i = find_char c xs in if i < 0 then -1 else i + 1))"

definition rfind_char :: "char \<Rightarrow> string \<Rightarrow> int" where
  "rfind_char c s =
     (let i = find_char c (rev s) in
      if i < 0 then -1 else int (length s) - 1 - i)"

text \<open>The slice \<open>s[i:j]\<close> for indices that are not negative.\<close>

definition py_slice :: "string \<Rightarrow> int \<Rightarrow> int \<Rightarrow> string" where
  "py_slice s i j = take (nat (j - i)) (drop (nat i) s)"

definition starts_with :: "char \<Rightarrow> string \<Rightarrow> bool" where
  "starts_with c s = (case s of [] \<Rightarrow> False | x # _ \<Rightarrow> x = c)"

section \<open>The standard library's \<open>json.loads\<close>\<close>

text \<open>
  \<open>json.loads\<close> belongs to Python's standard library; its decoder is modelled here after
  the library's scanner so that the repository's parsing code can be run on concrete
  response texts. A number is kept as its exact decimal value (rounding to binary64 is
  not modelled); \<open>NaN\<close>, \<open>Infinity\<close> and \<open>-Infinity\<close> are accepted as the library
  accepts them. An object keeps its members in the order read; Python's dict keeps the
  last value of a repeated key, which \<open>dict_get\<close> does. Every exception of the decoder
  is the value \<open>None\<close>.
\<close>

datatype json =
    JNull
  | JBool bool
  | JNumber rat
  | JNaN
  | JInfinity
  | JNegInfinity
  | JString string
  | JArray "json list"
  | JObject "(string \<times> json) list"

definition dict_get :: "(string \<times> json) list \<Rightarrow> string \<Rightarrow> json option" where
  "dict_get kvs k = map_of (rev kvs) k"

definition json_ws :: "char \<Rightarrow> bool" where
  "json_ws c = (c = CHR '' '' \<or> c = CHR 0x09 \<or> c = CHR 0x0A \<or> c = CHR 0x0D)"

definition skip_ws :: "string \<Rightarrow> string" where
  "skip_ws s = dropWhile json_ws s"

definition is_digit :: "char \<Rightarrow> bool" where
  "is_digit c = (48 \<le> (of_char c :: nat) \<and> (of_char c :: nat) \<le> 57)"

definition digits_val :: "string \<Rightarrow> nat" where
  "digits_val ds = foldl (\<lambda>a d. 10 * a + (of_char d - 48)) 0 ds"

definition hex_val :: "char \<Rightarrow> nat option" where
  "hex_val c =
     (let n = of_char c :: nat in
      if 48 \<le> n \<and> n \<le> 57 then Some (n - 48)
      else if 65 \<le> n \<and> n \<le> 70 then Some (n - 55)
      else if 97 \<le> n \<and> n \<le> 102 then Some (n - 87)
      else None)"

text \<open>Four hexadecimal digits of a \<open>\uXXXX\<close> escape.\<close>

definition decode_uXXXX :: "string \<Rightarrow> nat option" where
  "decode_uXXXX s =
     (case map hex_val (take 4 s) of
        [Some a, Some b, Some c, Some d] \<Rightarrow> Some (((a * 16 + b) * 16 + c) * 16 + d)
      | _ \<Rightarrow> None)"

definition utf8_encode :: "nat \<Rightarrow> string" where
  "utf8_encode cp =
     (if cp < 0x80 then [char_of cp]
      else if cp < 0x800 then [char_of (0xC0 + cp div 64), char_of (0x80 + cp mod 64)]
      else if cp < 0x10000 then
        [char_of (0xE0 + cp div 4096), char_of (0x80 + (cp div 64) mod 64),
         char_of (0x80 + cp mod 64)]
      else
        [char_of (0xF0 + cp div 262144), char_of (0x80 + (cp div 4096) mod 64),
         char_of (0x80 + (cp div 64) mod 64), char_of (0x80 + cp mod 64)])"

definition simple_escape :: "char \<Rightarrow> char option" where
  "simple_escape e =
     (if e = CHR 0x22 then Some (CHR 0x22)
      else if e = CHR 0x5C then Some (CHR 0x5C)
      else if e = CHR ''/'' then Some (CHR ''/'')
      else if e = CHR ''b'' then Some (CHR 0x08)
      else if e = CHR ''f'' then Some (CHR 0x0C)
      else if e = CHR ''n'' then Some (CHR 0x0A)
      else if e = CHR ''r'' then Some (CHR 0x0D)
      else if e = CHR ''t'' then Some (CHR 0x09)
      else None)"

text \<open>
  \<open>scanstring\<close> reads a string literal after its opening quote (strict mode): it ends at
  the next unescaped quote, refuses a raw control character and an unknown escape, and
  joins a surrogate pair of \<open>\u\<close> escapes into one code point.
\<close>

fun scanstring :: "string \<Rightarrow> (string \<times> string) option" where
  "scanstring [] = None"
| "scanstring (c # cs) =
     (if c = CHR 0x22 then Some ([], cs)
      else if c = CHR 0x5C then
        (case cs of
           [] \<Rightarrow> None
         | e # es \<Rightarrow>
             if e = CHR ''u'' then
               (case decode_uXXXX es of
                  None \<Rightarrow> None
                | Some u \<Rightarrow>
                    (case (if 0xD800 \<le> u \<and> u \<le> 0xDBFF \<and> take 2 (drop 4 es) = [CHR 0x5C, CHR ''u'']
                           then decode_uXXXX (drop 6 es) else None) of
                       Some u2 \<Rightarrow>
                         if 0xDC00 \<le> u2 \<and> u2 \<le> 0xDFFF then
                           map_option (\<lambda>(t, r). (utf8_encode (0x10000 + (u - 0xD800) * 1024 + (u2 - 0xDC00)) @ t, r))
                             (scanstring (drop 10 es))
                         else
                           map_option (\<lambda>(t, r). (utf8_encode u @ t, r)) (scanstring (drop 4 es))
                     | None \<Rightarrow>
                         map_option (\<lambda>(t, r). (utf8_encode u @ t, r)) (scanstring (drop 4 es))))
             else
               (case simple_escape e of
                  None \<Rightarrow> None
                | Some x \<Rightarrow> map_option (\<lambda>(t, r). (x # t, r)) (scanstring es)))
      else if (of_char c :: nat) < 0x20 then None
      else map_option (\<lambda>(t, r). (c # t, r)) (scanstring cs))"

definition pow10 :: "int \<Rightarrow> rat" where
  "pow10 e = (if 0 \<le> e then 10 ^ nat e else 1 / 10 ^ nat (- e))"

text \<open>The exponent part of a number: it is taken only when a digit follows.\<close>

definition match_exponent :: "string \<Rightarrow> int \<times> string" where
  "match_exponent s =
     (if starts_with (CHR ''e'') s \<or> starts_with (CHR ''E'') s then
        (let t = tl s;
             neg = starts_with (CHR ''-'') t;
             t' = (if neg \<or> starts_with (CHR ''+'') t then tl t else t);
             ed = takeWhile is_digit t'
         in if ed = [] then (0, s)
            else ((if neg then - int (digits_val ed) else int (digits_val ed)),
                  dropWhile is_digit t'))
      else (0, s))"

definition match_number :: "string \<Rightarrow> (json \<times> string) option" where
  "match_number s =
     (let neg = starts_with (CHR ''-'') s;
          s1 = (if neg then tl s else s);
          ds = takeWhile is_digit s1
      in if ds = [] then None
         else
           (let ip = (if hd ds = CHR ''0'' then ''0'' else ds);
                s2 = drop (length ip) s1;
                has_frac = (starts_with (CHR ''.'') s2 \<and> takeWhile is_digit (tl s2) \<noteq> []);
                fp = (if has_frac then takeWhile is_digit (tl s2) else []);
                s3 = (if has_frac then dropWhile is_digit (tl s2) else s2);
                ex = match_exponent s3;
                m = of_nat (digits_val (ip @ fp)) * pow10 (fst ex - int (length fp))
            in Some (JNumber (if neg then - m else m), snd ex)))"

text \<open>
  The scanner proper. Its first argument is fuel for the nested calls: each call uses
  one unit, and a call without fuel fails. \<open>json_loads\<close> below supplies one unit more
  than the text has characters; the recursion limit of the Python interpreter is not
  modelled. \<open>parse_object\<close> and \<open>parse_array\<close> start where a member (an element) is
  expected and carry the members read so far.
\<close>

fun scan_once :: "nat \<Rightarrow> string \<Rightarrow> (json \<times> string) option"
  and parse_object :: "nat \<Rightarrow> (string \<times> json) list \<Rightarrow> string \<Rightarrow> (json \<times> string) option"
  and parse_array :: "nat \<Rightarrow> json list \<Rightarrow> string \<Rightarrow> (json \<times> string) option"
where
  "scan_once 0 s = None"
| "scan_once (Suc n) s =
     (if starts_with (CHR 0x22) s then
        map_option (\<lambda>(t, r). (JString t, r)) (scanstring (tl s))
      else if starts_with (CHR ''{'') s then
        (let r = skip_ws (tl s) in
         if starts_with (CHR ''}'') r then Some (JObject [], tl r)
         else parse_object n [] r)
      else if starts_with (CHR ''['') s then
        (let r = skip_ws (tl s) in
         if starts_with (CHR '']'') r then Some (JArray [], tl r)
         else parse_array n [] r)
      else if take 4 s = ''null'' then Some (JNull, drop 4 s)
      else if take 4 s = ''true'' then Some (JBool True, drop 4 s)
      else if take 5 s = ''false'' then Some (JBool False, drop 5 s)
      else if take 3 s = ''NaN'' then Some (JNaN, drop 3 s)
      else if take 8 s = ''Infinity'' then Some (JInfinity, drop 8 s)
      else if take 9 s = ''-Infinity'' then Some (JNegInfinity, drop 9 s)
      else match_number s)"
| "parse_object 0 acc s = None"
| "parse_object (Suc n) acc s =
     (if \<not> starts_with (CHR 0x22) s then None
      else
        (case scanstring (tl s) of
           None \<Rightarrow> None
         | Some (k, r1) \<Rightarrow>
             (let r2 = skip_ws r1 in
              if \<not> starts_with (CHR '':'') r2 then None
              else
                (case scan_once n (skip_ws (tl r2)) of
                   None \<Rightarrow> None
                 | Some (v, r3) \<Rightarrow>
                     (let r4 = skip_ws r3 in
                      if starts_with (CHR ''}'') r4 then Some (JObject (acc @ [(k, v)]), tl r4)
                      else if starts_with (CHR '','') r4 then
                        parse_object n (acc @ [(k, v)]) (skip_ws (tl r4))
                      else None)))))"
| "parse_array 0 acc s = None"
| "parse_array (Suc n) acc s =
     (case scan_once n s of
        None \<Rightarrow> None
      | Some (v, r1) \<Rightarrow>
          (let r2 = skip_ws r1 in
           if starts_with (CHR '']'') r2 then Some (JArray (acc @ [v]), tl r2)
           else if starts_with (CHR '','') r2 then parse_array n (acc @ [v]) (skip_ws (tl r2))
           else None))"

text \<open>\<open>json.loads\<close>: one value, with white space allowed around it and nothing else.\<close>

definition json_loads :: "string \<Rightarrow> json option" where
  "json_loads s =
     (let s0 = skip_ws s in
      case scan_once (Suc (length s0)) s0 of
        None \<Rightarrow> None
      | Some (v, r) \<Rightarrow> if skip_ws r = [] then Some v else None)"

section \<open>Data model\<close>

text \<open>
  The module \<open>models.py\<close> that declares the record classes is not among the sources; the
  records below follow the specification's data model and the way the sources and the
  tests build and read them. The fields of \<open>ProcessedEmail\<close> and \<open>SummaryEmail\<close> carry
  a short prefix where two classes share a field name. \<open>received_date\<close> is kept as
  the printed datetime: the code modelled here only writes it into message texts.
\<close>

datatype ActionType = RE_HIT | BACKEND | CODE

fun action_value :: "ActionType \<Rightarrow> string" where
  "action_value RE_HIT = ''Re-hit''"
| "action_value BACKEND = ''Backend''"
| "action_value CODE = ''Code''"

text \<open>\<open>[e.value for e in ActionType]\<close> and the constructor \<open>ActionType(value)\<close>, which
  raises on any other string.\<close>

definition action_values :: "string list" where
  "action_values = map action_value [RE_HIT, BACKEND, CODE]"

definition ActionType_of :: "string \<Rightarrow> ActionType option" where
  "ActionType_of v =
     (if v = ''Re-hit'' then Some RE_HIT
      else if v = ''Backend'' then Some BACKEND
      else if v = ''Code'' then Some CODE
      else None)"

record EmailData =
  message_id :: string
  subject :: string
  sender :: string
  body :: string
  received_date :: string
  labels :: "string list"

record LLMAnalysis =
  action :: ActionType
  reason :: string
  confidence :: "rat option"

record SummaryEmail =
  se_subject :: string
  se_body :: string
  recipient :: string
  action_type :: ActionType
  original_alert_subject :: string

record ProcessedEmail =
  pe_id :: string
  original_message_id :: string
  original_subject :: string
  original_sender :: string
  processed_at :: int
  action_taken :: ActionType
  pe_reason :: string
  sent_to_team :: string
  success :: bool
  error_message :: "string option"

text \<open>
  Modelled from the spec: the validating constructor of \<open>LLMAnalysis\<close>, declared in the
  missing \<open>models.py\<close>. The specification gives its invariant: the reason is a string
  that is trimmed and not empty, the confidence is absent or a number in [0.0, 1.0];
  the tests show that an empty or blank reason and a confidence of 1.5 or -0.1 raise.
  The arguments are the JSON values the parser hands over; a refused value is \<open>None\<close>,
  and a reason that is not a string or a confidence that is neither a number nor null is
  refused.
\<close>

definition LLMAnalysis_new :: "ActionType \<Rightarrow> json \<Rightarrow> json \<Rightarrow> LLMAnalysis option" where
  "LLMAnalysis_new a r c =
     (case r of
        JString s \<Rightarrow>
          if strip s = [] then None
          else
            (case c of
               JNull \<Rightarrow> Some \<lparr>action = a, reason = strip s, confidence = None\<rparr>
             | JNumber q \<Rightarrow>
                 if 0 \<le> q \<and> q \<le> 1
                 then Some \<lparr>action = a, reason = strip s, confidence = Some q\<rparr>
                 else None
             | _ \<Rightarrow> None)
      | _ \<Rightarrow> None)"

section \<open>Classifier client (\<open>llm_analyzer.py\<close>)\<close>

text \<open>
  \<open>_parse_gemini_response\<close>. Both \<open>except\<close> clauses return \<open>None\<close>, so every exception
  raised inside (by \<open>json.loads\<close>, by indexing a value that is not a dict, by the
  constructors) is the result \<open>None\<close>. \<open>analysis_from_dict\<close> is the part of the function
  that follows \<open>json.loads\<close>: the required keys, the action and the construction of the
  analysis, with 0.8 for a missing confidence.
\<close>

definition analysis_from_dict :: "(string \<times> json) list \<Rightarrow> LLMAnalysis option" where
  "analysis_from_dict parsed =
     (case (dict_get parsed ''action'', dict_get parsed ''reason'') of
        (Some act, Some rsn) \<Rightarrow>
          if act \<notin> set (map JString action_values) then None
          else
            (case act of
               JString v \<Rightarrow>
                 (case ActionType_of v of
                    None \<Rightarrow> None
                  | Some a \<Rightarrow>
                      LLMAnalysis_new a rsn
                        (case dict_get parsed ''confidence'' of
                           None \<Rightarrow> JNumber 0.8
                         | Some c \<Rightarrow> c))
             | _ \<Rightarrow> None)
      | _ \<Rightarrow> None)"

definition parse_gemini_response :: "string \<Rightarrow> LLMAnalysis option" where
  "parse_gemini_response response_text =
     (let text = strip response_text;
          json_start = find_char (CHR ''{'') text;
          json_end = rfind_char (CHR ''}'') text + 1
      in if json_start = -1 \<or> json_end = 0 then None
         else
           (case json_loads (py_slice text json_start json_end) of
              Some (JObject parsed) \<Rightarrow> analysis_from_dict parsed
            | _ \<Rightarrow> None))"

text \<open>
  For the statements below: the part of a response from its first \<open>{\<close> to its last
  \<open>}\<close> (empty when one of them is missing), which is what the parser hands to
  \<open>json.loads\<close>; and the invariant of an analysis.
\<close>

definition json_span :: "string \<Rightarrow> string" where
  "json_span response_text =
     (let text = strip response_text;
          json_start = find_char (CHR ''{'') text;
          json_end = rfind_char (CHR ''}'') text + 1
      in if json_start = -1 \<or> json_end = 0 then []
         else py_slice text json_start json_end)"

definition well_formed :: "LLMAnalysis \<Rightarrow> bool" where
  "well_formed a =
     (action_value (action a) \<in> set action_values
      \<and> reason a \<noteq> [] \<and> strip (reason a) = reason a
      \<and> (case confidence a of None \<Rightarrow> True | Some q \<Rightarrow> 0 \<le> q \<and> q \<le> 1))"

text \<open>
  A call into a remote service either returns a value or raises; the text of the
  exception is kept because the callers interpolate it into their messages.
\<close>

datatype 'a outcome = Returns 'a | Raises string

text \<open>
  The body of \<open>analyze_email\<close>, applied to what \<open>model.generate_content(prompt)\<close> did:
  the \<open>except Exception\<close> clause turns every exception into the result \<open>None\<close>.
\<close>

definition analyze_email_body :: "string outcome \<Rightarrow> LLMAnalysis option outcome" where
  "analyze_email_body response =
     (case response of
        Raises e \<Rightarrow> Returns None
      | Returns text \<Rightarrow>
          if text = [] then Returns None
          else Returns (parse_gemini_response text))"

text \<open>
  The \<open>@retry(stop=stop_after_attempt(n), ...)\<close> decorator of tenacity: the function is
  called again while it raises, until attempt \<open>n\<close> has been made; then \<open>RetryError\<close> is
  raised. \<open>f k\<close> is what attempt number \<open>k\<close> does (the first attempt is number 1); the
  result comes with the number of attempts made. The waiting time between attempts is
  not part of the model.
\<close>

fun retrying :: "nat \<Rightarrow> nat \<Rightarrow> (nat \<Rightarrow> 'a outcome) \<Rightarrow> 'a outcome \<times> nat" where
  "retrying 0 k f =
     (case f k of Returns v \<Rightarrow> (Returns v, k) | Raises e \<Rightarrow> (Raises ''RetryError'', k))"
| "retrying (Suc r) k f =
     (case f k of Returns v \<Rightarrow> (Returns v, k) | Raises e \<Rightarrow> retrying r (Suc k) f)"

definition retry :: "int \<Rightarrow> (nat \<Rightarrow> 'a outcome) \<Rightarrow> 'a outcome \<times> nat" where
  "retry attempts f = retrying (nat attempts - 1) 1 f"

text \<open>\<open>analyze_email\<close> with its decorator; \<open>gen k\<close> is what the \<open>k\<close>-th call of
  \<open>generate_content\<close> for this email does.\<close>

definition analyze_email :: "int \<Rightarrow> (nat \<Rightarrow> string outcome) \<Rightarrow> LLMAnalysis option outcome \<times> nat" where
  "analyze_email attempts gen = retry attempts (\<lambda>k. analyze_email_body (gen k))"

section \<open>Audit log (\<open>database.py\<close>)\<close>

text \<open>
  The log is the list of the data rows of the CSV file, oldest first; a time stamp is a
  number of microseconds. The file is taken to exist and to be readable and writable,
  and a cell is read back as the value that was written: faults of the file system and
  the type inference of the CSV reader are outside the model.
\<close>

type_synonym audit_log = "ProcessedEmail list"

definition save_processed_email :: "ProcessedEmail \<Rightarrow> audit_log \<Rightarrow> bool \<times> audit_log" where
  "save_processed_email processed_email db = (True, db @ [processed_email])"

definition check_duplicate :: "audit_log \<Rightarrow> string \<Rightarrow> bool" where
  "check_duplicate db mid =
     (if db = [] then False else mid \<in> set (map original_message_id db))"



record stats =
  total_processed :: nat
  successful :: nat
  failed :: nat
  success_rate :: rat
  action_breakdown :: "(string \<times> nat) list"
  team_distribution :: "(string \<times> nat) list"
  recent_24h :: nat






section \<open>Configuration (\<open>config.py\<close>)\<close>

record Config =
  backend_team_email :: string
  code_team_email :: string
  rehit_team_email :: string
  max_emails_per_batch :: int
  retry_attempts :: int

definition get_team_email :: "Config \<Rightarrow> string \<Rightarrow> string" where
  "get_team_email cfg act =
     (case map_of [(''Re-hit'', rehit_team_email cfg),
                   (''Backend'', backend_team_email cfg),
                   (''Code'', code_team_email cfg)] act of
        Some addr \<Rightarrow> addr
      | None \<Rightarrow> backend_team_email cfg)"

section \<open>The services around the processor\<close>

text \<open>
  What the mailbox, the classifier, the mail transport, the clock and the id generator do
  during one run is given from outside: \<open>unread\<close> is what \<open>fetch_unread_emails\<close> does in
  the cycle (after its own retries), \<open>gemini e k\<close> what the \<open>k\<close>-th call of
  \<open>generate_content\<close> for email \<open>e\<close> does, \<open>transport m\<close> whether the transport delivers
  \<open>m\<close>. The last three fields are the connection tests of the health check.
  \<open>render\<close> stands for the subject and body that \<open>SummaryEmail.from_analysis\<close> of the
  missing \<open>models.py\<close> produces.
\<close>

record env =
  unread :: "EmailData list outcome"
  gemini :: "EmailData \<Rightarrow> nat \<Rightarrow> string outcome"
  transport :: "SummaryEmail \<Rightarrow> bool"
  render :: "EmailData \<Rightarrow> LLMAnalysis \<Rightarrow> string \<times> string"
  new_id :: "EmailData \<Rightarrow> string"
  clock :: int
  probe_fetch_ok :: bool
  llm_model_ready :: bool
  sender_connection_ok :: bool

text \<open>
  The state a cycle changes: the audit log, the messages handed to
  \<open>send_summary_email\<close> (every attempt, delivered or not) and the message ids passed to
  \<open>mark_as_read\<close>, each in the order of the calls.
\<close>

record world =
  audit :: audit_log
  outbox :: "SummaryEmail list"
  read_marks :: "string list"

section \<open>Notification sender (\<open>email_sender.py\<close>)\<close>

text \<open>\<open>send_summary_email\<close>: both transports catch their exceptions and return
  \<open>False\<close>, so the function returns a boolean and its retry decorator never fires.\<close>

definition send_summary_email :: "env \<Rightarrow> SummaryEmail \<Rightarrow> world \<Rightarrow> bool \<times> world" where
  "send_summary_email ev summary_email w =
     (transport ev summary_email, w\<lparr>outbox := outbox w @ [summary_email]\<rparr>)"

definition nl :: string where
  "nl = [CHR 0x0A]"

text \<open>The message that \<open>send_error_notification\<close> builds, addressed to the backend
  team, and its sending.\<close>

definition error_notification :: "Config \<Rightarrow> string \<Rightarrow> EmailData \<Rightarrow> SummaryEmail" where
  "error_notification cfg error_msg original_email =
     (let subj = ''Alert Processing Error - '' @ subject original_email;
          text = ''An error occurred while processing the following alert email:'' @ nl @ nl
                 @ ''Original Alert Subject: '' @ subject original_email @ nl
                 @ ''Original Sender: '' @ sender original_email @ nl
                 @ ''Received: '' @ received_date original_email @ nl
                 @ ''Message ID: '' @ message_id original_email @ nl @ nl
                 @ ''Error Details:'' @ nl
                 @ error_msg @ nl @ nl
                 @ ''Please review the alert manually and take appropriate action.'' @ nl @ nl
                 @ ''---'' @ nl
                 @ ''This error notification was automatically generated by the Alert Email Processor.''
                 @ nl
      in \<lparr>se_subject = subj, se_body = text, recipient = backend_team_email cfg,
          action_type = BACKEND, original_alert_subject = subject original_email\<rparr>)"

definition send_error_notification ::
    "Config \<Rightarrow> env \<Rightarrow> string \<Rightarrow> EmailData \<Rightarrow> world \<Rightarrow> bool \<times> world" where
  "send_error_notification cfg ev error_msg original_email w =
     send_summary_email ev (error_notification cfg error_msg original_email) w"

text \<open>Modelled from the spec: \<open>SummaryEmail.from_analysis\<close> of the missing \<open>models.py\<close>,
  a summary derived from the email, the analysis and the recipient.\<close>

definition from_analysis :: "env \<Rightarrow> EmailData \<Rightarrow> LLMAnalysis \<Rightarrow> string \<Rightarrow> SummaryEmail" where
  "from_analysis ev original_email analysis rcpt =
     \<lparr>se_subject = fst (render ev original_email analysis),
      se_body = snd (render ev original_email analysis),
      recipient = rcpt,
      action_type = action analysis,
      original_alert_subject = subject original_email\<rparr>"

section \<open>Orchestrator (\<open>processor.py\<close>)\<close>

text \<open>Modelled from the spec: the constructor of \<open>ProcessedEmail\<close> of the missing
  \<open>models.py\<close>, with a generated id and the current time as \<open>processed_at\<close>.\<close>

definition ProcessedEmail_new ::
    "env \<Rightarrow> EmailData \<Rightarrow> ActionType \<Rightarrow> string \<Rightarrow> string \<Rightarrow> bool \<Rightarrow> string option \<Rightarrow> ProcessedEmail" where
  "ProcessedEmail_new ev e act rsn team ok err =
     \<lparr>pe_id = new_id ev e, original_message_id = message_id e,
      original_subject = subject e, original_sender = sender e,
      processed_at = clock ev, action_taken = act, pe_reason = rsn,
      sent_to_team = team, success = ok, error_message = err\<rparr>"

definition save_record :: "ProcessedEmail \<Rightarrow> world \<Rightarrow> world" where
  "save_record processed_record w =
     w\<lparr>audit := snd (save_processed_email processed_record (audit w))\<rparr>"

definition process_single_email :: "Config \<Rightarrow> env \<Rightarrow> EmailData \<Rightarrow> world \<Rightarrow> bool \<times> world" where
  "process_single_email cfg ev email_data w =
     (case fst (analyze_email (retry_attempts cfg) (gemini ev email_data)) of
        Raises ex \<Rightarrow>
          (let error_msg = ''Unexpected error processing email: '' @ ex;
               w1 = snd (send_error_notification cfg ev error_msg email_data w);
               processed_record =
                 ProcessedEmail_new ev email_data BACKEND ''Processing error''
                   (backend_team_email cfg) False (Some error_msg)
           in (False, save_record processed_record w1))
      | Returns None \<Rightarrow>
          (let error_msg = ''LLM analysis failed'';
               w1 = snd (send_error_notification cfg ev error_msg email_data w);
               processed_record =
                 ProcessedEmail_new ev email_data BACKEND ''LLM analysis failed''
                   (backend_team_email cfg) False (Some error_msg)
           in (False, save_record processed_record w1))
      | Returns (Some analysis) \<Rightarrow>
          (let rcpt = get_team_email cfg (action_value (action analysis));
               summary_email = from_analysis ev email_data analysis rcpt;
               sent = send_summary_email ev summary_email w
           in if \<not> fst sent then
                (let error_msg = ''Failed to send summary email'';
                     processed_record =
                       ProcessedEmail_new ev email_data (action analysis) (reason analysis)
                         rcpt False (Some error_msg)
                 in (False, save_record processed_record (snd sent)))
              else
                (let processed_record =
                       ProcessedEmail_new ev email_data (action analysis) (reason analysis)
                         rcpt True None
                 in (True, save_record processed_record (snd sent)))))"

definition filter_unprocessed_emails :: "audit_log \<Rightarrow> EmailData list \<Rightarrow> EmailData list" where
  "filter_unprocessed_emails rows emails =
     filter (\<lambda>email_data. \<not> check_duplicate rows (message_id email_data)) emails"

definition mark_as_read :: "string \<Rightarrow> world \<Rightarrow> world" where
  "mark_as_read mid w = w\<lparr>read_marks := read_marks w @ [mid]\<rparr>"

record results =
  processed_count :: nat
  successful_count :: nat
  failed_count :: nat
  skipped_count :: nat
  errors :: "string list"

text \<open>The loop of \<open>process_alerts\<close> over the emails to process. The calls in its body
  return and do not raise, so the handler of the inner \<open>try\<close> has no case here.\<close>

fun process_each :: "Config \<Rightarrow> env \<Rightarrow> EmailData list \<Rightarrow> results \<times> world \<Rightarrow> results \<times> world" where
  "process_each cfg ev [] rw = rw"
| "process_each cfg ev (email_data # rest) rw =
     (let r = fst rw;
          done = process_single_email cfg ev email_data (snd rw);
          r1 = r\<lparr>processed_count := processed_count r + 1\<rparr>
      in if fst done then
           process_each cfg ev rest
             (r1\<lparr>successful_count := successful_count r1 + 1\<rparr>,
              mark_as_read (message_id email_data) (snd done))
         else
           process_each cfg ev rest (r1\<lparr>failed_count := failed_count r1 + 1\<rparr>, snd done))"

definition process_alerts :: "Config \<Rightarrow> env \<Rightarrow> world \<Rightarrow> results \<times> world" where
  "process_alerts cfg ev w =
     (let results0 = \<lparr>processed_count = 0, successful_count = 0, failed_count = 0,
                      skipped_count = 0, errors = []\<rparr>
      in case unread ev of
           Raises ex \<Rightarrow>
             (results0\<lparr>errors := [''Critical error in alert processing: '' @ ex]\<rparr>, w)
         | Returns emails \<Rightarrow>
             if emails = [] then (results0, w)
             else
               (let emails_to_process = filter_unprocessed_emails (audit w) emails;
                    r1 = results0\<lparr>skipped_count := length emails - length emails_to_process\<rparr>
                in if emails_to_process = [] then (r1, w)
                   else process_each cfg ev emails_to_process (r1, w)))"



section \<open>Scheduler and command line (\<open>scheduler.py\<close>, \<open>main.py\<close>)\<close>




section \<open>Fixtures\<close>

text \<open>The email, the configuration and the classifier answer of the test suite; an
  environment in which every call of the classifier gives the same answer and every
  message meets the same transport.\<close>

definition sample_email_data :: EmailData where
  "sample_email_data =
     \<lparr>message_id = ''test_message_123'',
      subject = ''Alert: Database Connection Failed'',
      sender = ''monitoring@company.com'',
      body = ''Database connection to prod-db-01 failed. Error: Connection timeout after 30 seconds.'',
      received_date = ''2025-09-03 10:30:00'',
      labels = []\<rparr>"

definition test_config :: Config where
  "test_config =
     \<lparr>backend_team_email = ''backend@company.com'',
      code_team_email = ''dev@company.com'',
      rehit_team_email = ''ops@company.com'',
      max_emails_per_batch = 5,
      retry_attempts = 3\<rparr>"

definition sample_env :: "EmailData list outcome \<Rightarrow> string outcome \<Rightarrow> bool \<Rightarrow> bool \<Rightarrow> env" where
  "sample_env mailbox answer delivered sender_ok =
     \<lparr>unread = mailbox,
      gemini = (\<lambda>e k. answer),
      transport = (\<lambda>m. delivered),
      render = (\<lambda>e a. (''Alert Analysis - Action Required: '' @ action_value (action a),
                         subject e @ nl @ sender e @ nl @ reason a)),
      new_id = (\<lambda>e. ''id-'' @ message_id e),
      clock = 0,
      probe_fetch_ok = True,
      llm_model_ready = True,
      sender_connection_ok = sender_ok\<rparr>"

definition empty_world :: world where
  "empty_world = \<lparr>audit = [], outbox = [], read_marks = []\<rparr>"



section \<open>Properties of the audit log\<close>










section \<open>Properties of strings and of the span that is decoded\<close>

text \<open>
  \<open>strip\<close> removes a prefix and a suffix, and a stripped string has no white space
  left at either end, so stripping twice changes nothing.
\<close>

lemma ws_codes_nonempty: "w \<in> set ws_codes \<Longrightarrow> w \<noteq> []"
  by (auto simp: ws_codes_def)

lemma space_width_0_iff:
  "space_width s = 0 \<longleftrightarrow> (\<forall>w \<in> set ws_codes. take (length w) s \<noteq> w)"
proof (cases "find (\<lambda>w. take (length w) s = w) ws_codes")
  case None
  then have "\<forall>w \<in> set ws_codes. take (length w) s \<noteq> w"
    by (auto simp: find_None_iff)
  then show ?thesis by (simp add: space_width_def None)
next
  case (Some w)
  then have "w \<in> set ws_codes" "take (length w) s = w"
    by (auto simp: find_Some_iff)
  with Some show ?thesis
    using ws_codes_nonempty by (auto simp: space_width_def)
qed

lemma trailing_width_0_iff:
  "trailing_width s = 0 \<longleftrightarrow>
     (\<forall>w \<in> set ws_codes. \<not> (length w \<le> length s \<and> drop (length s - length w) s = w))"
proof (cases "find (\<lambda>w. length w \<le> length s \<and> drop (length s - length w) s = w) ws_codes")
  case None
  then have "\<forall>w \<in> set ws_codes. \<not> (length w \<le> length s \<and> drop (length s - length w) s = w)"
    by (auto simp: find_None_iff)
  then show ?thesis by (simp add: trailing_width_def None)
next
  case (Some w)
  then have "w \<in> set ws_codes" "length w \<le> length s \<and> drop (length s - length w) s = w"
    by (auto simp: find_Some_iff)
  with Some show ?thesis
    using ws_codes_nonempty by (auto simp: trailing_width_def)
qed

lemma lstrip_drop: "\<exists>k. lstrip s = drop k s"
proof (induction s rule: lstrip.induct)
  case (1 s)
  show ?case
  proof (cases "space_width s = 0")
    case True
    then have "lstrip s = drop 0 s" by (simp add: lstrip.simps)
    then show ?thesis by blast
  next
    case False
    with 1 obtain k where "lstrip (drop (space_width s) s) = drop k (drop (space_width s) s)"
      by blast
    with False have "lstrip s = drop (k + space_width s) s"
      by (subst lstrip.simps) (simp add: add.commute)
    then show ?thesis by blast
  qed
qed

lemma rstrip_take: "\<exists>m. rstrip s = take m s"
proof (induction s rule: rstrip.induct)
  case (1 s)
  show ?case
  proof (cases "trailing_width s = 0")
    case True
    then have "rstrip s = take (length s) s" by (simp add: rstrip.simps)
    then show ?thesis by blast
  next
    case False
    with 1 obtain m where
      "rstrip (take (length s - trailing_width s) s) = take m (take (length s - trailing_width s) s)"
      by blast
    with False have "rstrip s = take (min m (length s - trailing_width s)) s"
      by (subst rstrip.simps) simp
    then show ?thesis by blast
  qed
qed

lemma space_width_lstrip: "space_width (lstrip s) = 0"
proof (induction s rule: lstrip.induct)
  case (1 s)
  then show ?case by (subst lstrip.simps) simp
qed

lemma trailing_width_rstrip: "trailing_width (rstrip s) = 0"
proof (induction s rule: rstrip.induct)
  case (1 s)
  then show ?case by (subst rstrip.simps) simp
qed

lemma space_width_take:
  assumes "space_width s = 0"
  shows "space_width (take m s) = 0"
proof -
  have "take (length w) (take m s) \<noteq> w" if w: "w \<in> set ws_codes" for w
  proof
    assume e: "take (length w) (take m s) = w"
    then have "length (take (length w) (take m s)) = length w" by simp
    then have "length w \<le> m" by simp
    then have "take (length w) (take m s) = take (length w) s"
      by (simp add: min_absorb1)
    with e assms w show False by (auto simp: space_width_0_iff)
  qed
  then show ?thesis by (simp add: space_width_0_iff)
qed

lemma space_width_rstrip: "space_width s = 0 \<Longrightarrow> space_width (rstrip s) = 0"
  using rstrip_take [of s] space_width_take by fastforce

lemma strip_idem: "strip (strip s) = strip s"
proof -
  have "space_width (strip s) = 0"
    by (simp add: strip_def space_width_rstrip space_width_lstrip)
  then have l: "lstrip (strip s) = strip s"
    by (simp add: lstrip.simps)
  have "trailing_width (strip s) = 0"
    by (simp add: strip_def trailing_width_rstrip)
  then have "rstrip (strip s) = strip s"
    by (simp add: rstrip.simps)
  with l show ?thesis by (simp add: strip_def)
qed

text \<open>
  Stripping keeps the order of what it leaves: the stripped text of \<open>pre @ post\<close> is a
  part of \<open>pre\<close> followed by a part of \<open>post\<close>.
\<close>

lemma strip_split:
  "\<exists>pre' post'. strip (pre @ post) = pre' @ post' \<and> set pre' \<subseteq> set pre \<and> set post' \<subseteq> set post"
proof -
  obtain k where k: "lstrip (pre @ post) = drop k (pre @ post)"
    using lstrip_drop by blast
  obtain m where m: "rstrip (drop k (pre @ post)) = take m (drop k (pre @ post))"
    using rstrip_take by blast
  have "strip (pre @ post) = take m (drop k pre) @ take (m - length (drop k pre)) (drop (k - length pre) post)"
    using k m by (simp add: strip_def)
  moreover have "set (take m (drop k pre)) \<subseteq> set pre"
    by (meson set_drop_subset set_take_subset subset_trans)
  moreover have "set (take (m - length (drop k pre)) (drop (k - length pre) post)) \<subseteq> set post"
    by (meson set_drop_subset set_take_subset subset_trans)
  ultimately show ?thesis by blast
qed

text \<open>
  Where \<open>find\<close> and \<open>rfind\<close> point in a text made of two parts.
\<close>

lemma find_char_absent: "c \<notin> set s \<Longrightarrow> find_char c s = -1"
  by (induction s) auto

lemma find_char_present: "c \<in> set s \<Longrightarrow> 0 \<le> find_char c s \<and> find_char c s < int (length s)"
  by (induction s) (auto simp: Let_def)

lemma find_char_negative: "find_char c s < 0 \<Longrightarrow> find_char c s = -1"
  by (induction s) (auto simp: Let_def split: if_splits)

lemma find_char_append:
  "c \<notin> set pre \<Longrightarrow> find_char c (pre @ post) = -1 \<or> int (length pre) \<le> find_char c (pre @ post)"
proof (induction pre)
  case Nil
  show ?case using find_char_negative [of c post] by auto
next
  case (Cons x pre)
  then show ?case by (auto simp: Let_def)
qed

lemma find_char_append_left:
  "c \<in> set pre \<Longrightarrow> find_char c (pre @ post) = find_char c pre"
  by (induction pre) (auto simp: Let_def find_char_absent dest: find_char_present)

lemma find_char_append_right:
  "c \<notin> set pre \<Longrightarrow> c \<in> set post \<Longrightarrow> find_char c (pre @ post) = int (length pre) + find_char c post"
  by (induction pre) (auto simp: Let_def dest: find_char_present)

lemma rfind_char_append:
  assumes "c \<notin> set post"
  shows "rfind_char c (pre @ post) + 1 \<le> int (length pre)"
proof (cases "c \<in> set pre")
  case True
  then have "find_char c (rev post @ rev pre) = int (length post) + find_char c (rev pre)"
    using assms by (simp add: find_char_append_right)
  moreover have "0 \<le> find_char c (rev pre)"
    using True find_char_present [of c "rev pre"] by simp
  ultimately show ?thesis
    by (simp add: rfind_char_def Let_def)
next
  case False
  then have "find_char c (rev (pre @ post)) = -1"
    using assms by (simp add: find_char_absent)
  then show ?thesis by (simp add: rfind_char_def)
qed

text \<open>
  The parser in terms of the span it decodes; the span is empty when no \<open>{\<close> comes
  before a \<open>}\<close>.
\<close>

lemma json_loads_Nil: "json_loads [] = None"
  by (simp add: json_loads_def skip_ws_def starts_with_def match_number_def)

lemma parse_via_span:
  "parse_gemini_response t =
     (case json_loads (json_span t) of
        Some (JObject parsed) \<Rightarrow> analysis_from_dict parsed
      | _ \<Rightarrow> None)"
  by (simp add: parse_gemini_response_def json_span_def Let_def json_loads_Nil)

lemma json_span_no_pair:
  assumes "CHR ''{'' \<notin> set pre" and "CHR ''}'' \<notin> set post"
  shows "json_span (pre @ post) = []"
proof -
  obtain pre' post' where s: "strip (pre @ post) = pre' @ post'"
    and a: "set pre' \<subseteq> set pre" and b: "set post' \<subseteq> set post"
    using strip_split by blast
  have a': "CHR ''{'' \<notin> set pre'" and b': "CHR ''}'' \<notin> set post'"
    using assms a b by auto
  have "find_char (CHR ''{'') (pre' @ post') = -1
        \<or> rfind_char (CHR ''}'') (pre' @ post') + 1 \<le> find_char (CHR ''{'') (pre' @ post')"
    using find_char_append [OF a', of post'] rfind_char_append [OF b', of pre'] by linarith
  then show ?thesis
    by (auto simp: json_span_def s Let_def py_slice_def)
qed

text \<open>
  Whatever the constructor accepts satisfies the invariant.
\<close>

lemma LLMAnalysis_new_well_formed:
  "LLMAnalysis_new a r c = Some x \<Longrightarrow> well_formed x"
  by (cases a)
     (auto simp: LLMAnalysis_new_def well_formed_def strip_idem action_values_def
       split: json.splits if_splits)

lemma analysis_from_dict_well_formed:
  "analysis_from_dict parsed = Some x \<Longrightarrow> well_formed x"
  by (auto simp: analysis_from_dict_def split: option.splits json.splits if_splits
      dest: LLMAnalysis_new_well_formed)

section \<open>Properties of response parsing\<close>

text \<open>
  Claim C7. Response parsing yields no result when the text has no \<open>{\<close> or no
  \<open>}\<close>, and when the JSON object between the first \<open>{\<close> and the last \<open>}\<close> has an
  action value that is not one of "Re-hit", "Backend", "Code".
\<close>

theorem invalid_action_or_no_braces:
  "(CHR ''{'' \<notin> set t \<or> CHR ''}'' \<notin> set t \<longrightarrow> parse_gemini_response t = None)
   \<and> (json_loads (json_span t) = Some (JObject parsed)
        \<and> dict_get parsed ''action'' = Some v
        \<and> v \<notin> set (map JString action_values)
      \<longrightarrow> parse_gemini_response t = None)"
proof (intro conjI impI)
  assume "CHR ''{'' \<notin> set t \<or> CHR ''}'' \<notin> set t"
  then have "json_span t = []"
    using json_span_no_pair [of t "[]"] json_span_no_pair [of "[]" t] by auto
  then show "parse_gemini_response t = None"
    by (simp add: parse_via_span json_loads_Nil)
next
  assume "json_loads (json_span t) = Some (JObject parsed)
        \<and> dict_get parsed ''action'' = Some v
        \<and> v \<notin> set (map JString action_values)"
  then show "parse_gemini_response t = None"
    by (simp add: parse_via_span analysis_from_dict_def split: option.splits)
qed

text \<open>
  The two responses of the test suite: text without JSON, and an object with the action
  "InvalidAction".
\<close>

theorem invalid_action_or_no_braces_witness:
  \<open>parse_gemini_response ''This is not valid JSON'' = None
   \<and> parse_gemini_response ''{"action": "InvalidAction", "reason": "Some reason", "confidence": 0.85}'' = None\<close>
proof -
  let ?t = \<open>''{"action": "InvalidAction", "reason": "Some reason", "confidence": 0.85}''\<close>
  let ?parsed = "[(''action'', JString ''InvalidAction''), (''reason'', JString ''Some reason''),
                  (''confidence'', JNumber 0.85)]"
  have a: "CHR ''{'' \<notin> set ''This is not valid JSON''"
    by simp
  have b: "json_loads (json_span ?t) = Some (JObject ?parsed)"
    by code_simp
  have c: "dict_get ?parsed ''action'' = Some (JString ''InvalidAction'')"
    by (simp add: dict_get_def)
  have d: "JString ''InvalidAction'' \<notin> set (map JString action_values)"
    by (simp add: action_values_def)
  from invalid_action_or_no_braces [of "''This is not valid JSON''"] a
  have 1: "parse_gemini_response ''This is not valid JSON'' = None" by blast
  from invalid_action_or_no_braces [of ?t ?parsed "JString ''InvalidAction''"] b c d
  have 2: "parse_gemini_response ?t = None" by blast
  from 1 2 show ?thesis by simp
qed

text \<open>
  Claim C6 speaks of every response text that contains a JSON object with a valid
  action, a reason and no confidence. The text below contains such an object, but a
  brace pair stands before it: the span from the first \<open>{\<close> to the last \<open>}\<close> is not
  one JSON value, and parsing yields no result.
\<close>

theorem embedded_object_counterexample:
  \<open>json_loads ''{"action":"Code","reason":"null pointer"}''
     = Some (JObject [(''action'', JString ''Code''), (''reason'', JString ''null pointer'')])
   \<and> parse_gemini_response
        (''Example: {} Answer: '' @ ''{"action":"Code","reason":"null pointer"}'' @ []) = None\<close>
proof -
  have a: \<open>json_loads ''{"action":"Code","reason":"null pointer"}''
     = Some (JObject [(''action'', JString ''Code''), (''reason'', JString ''null pointer'')])\<close>
    by code_simp
  have b: \<open>parse_gemini_response
        (''Example: {} Answer: '' @ ''{"action":"Code","reason":"null pointer"}'' @ []) = None\<close>
    by code_simp
  from a b show ?thesis by simp
qed

text \<open>
  Claim C6, amended. When the part of the response from its first \<open>{\<close> to its last
  \<open>}\<close> is a JSON object with an action value among "Re-hit", "Backend", "Code", a
  reason string that is not blank and no confidence key, parsing yields an analysis with
  confidence 0.8 (and with that action and the trimmed reason).
\<close>

theorem default_confidence:
  assumes "json_loads (json_span t) = Some (JObject parsed)"
    and "dict_get parsed ''action'' = Some (JString v)"
    and "v \<in> set action_values"
    and "dict_get parsed ''reason'' = Some (JString r)"
    and "strip r \<noteq> []"
    and "dict_get parsed ''confidence'' = None"
  shows "\<exists>a. parse_gemini_response t = Some a
           \<and> confidence a = Some 0.8
           \<and> action_value (action a) = v
           \<and> reason a = strip r"
proof -
  obtain act where act: "ActionType_of v = Some act" "action_value act = v"
    using assms(3) by (auto simp: action_values_def ActionType_of_def)
  have "analysis_from_dict parsed = Some \<lparr>action = act, reason = strip r, confidence = Some 0.8\<rparr>"
    using assms act by (simp add: analysis_from_dict_def LLMAnalysis_new_def)
  then show ?thesis
    using assms(1) act by (simp add: parse_via_span)
qed

text \<open>
  An object without confidence, with text around it.
\<close>

theorem default_confidence_witness:
  \<open>\<exists>a. parse_gemini_response ''Some text before {"action": "Re-hit", "reason": " Temporary network issue "} after''
          = Some a
      \<and> confidence a = Some 0.8
      \<and> action a = RE_HIT
      \<and> reason a = ''Temporary network issue''\<close>
proof -
  let ?t = \<open>''Some text before {"action": "Re-hit", "reason": " Temporary network issue "} after''\<close>
  let ?parsed = "[(''action'', JString ''Re-hit''), (''reason'', JString '' Temporary network issue '')]"
  have h1: "json_loads (json_span ?t) = Some (JObject ?parsed)"
    by code_simp
  have h2: "dict_get ?parsed ''action'' = Some (JString ''Re-hit'')"
    by (simp add: dict_get_def)
  have h3: "''Re-hit'' \<in> set action_values"
    by (simp add: action_values_def)
  have h4: "dict_get ?parsed ''reason'' = Some (JString '' Temporary network issue '')"
    by (simp add: dict_get_def)
  have s: "strip '' Temporary network issue '' = ''Temporary network issue''"
    by code_simp
  have h5: "strip '' Temporary network issue '' \<noteq> []"
    by (simp add: s)
  have h6: "dict_get ?parsed ''confidence'' = None"
    by (simp add: dict_get_def)
  from default_confidence [OF h1 h2 h3 h4 h5 h6]
  obtain a where a: "parse_gemini_response ?t = Some a" "confidence a = Some 0.8"
    "action_value (action a) = ''Re-hit''" "reason a = strip '' Temporary network issue ''"
    by blast
  from a(3) have "action a = RE_HIT"
    by (cases "action a") simp_all
  with a s show ?thesis by simp
qed

text \<open>
  Claim C10. For every input, \<open>_parse_gemini_response\<close> returns \<open>None\<close> or an
  analysis that satisfies the invariant (an action of the enumeration, a trimmed reason
  that is not empty, a confidence that is absent or in [0, 1]); no exception leaves it,
  every one being the result \<open>None\<close>. In particular the result is \<open>None\<close> when every
  \<open>}\<close> stands before every \<open>{\<close>, when the span between the braces is not JSON,
  when the reason is empty or blank, and when the confidence is a number outside
  [0, 1].
\<close>

theorem parse_gemini_response_total:
  "(case parse_gemini_response t of None \<Rightarrow> True | Some a \<Rightarrow> well_formed a)
   \<and> (t = pre @ post \<and> CHR ''{'' \<notin> set pre \<and> CHR ''}'' \<notin> set post
        \<longrightarrow> parse_gemini_response t = None)
   \<and> (json_loads (json_span t) = None \<longrightarrow> parse_gemini_response t = None)
   \<and> (json_loads (json_span t) = Some (JObject parsed)
        \<and> dict_get parsed ''reason'' = Some (JString r) \<and> strip r = []
        \<longrightarrow> parse_gemini_response t = None)
   \<and> (json_loads (json_span t) = Some (JObject parsed)
        \<and> dict_get parsed ''confidence'' = Some (JNumber q) \<and> (q < 0 \<or> 1 < q)
        \<longrightarrow> parse_gemini_response t = None)"
proof (intro conjI impI)
  show "case parse_gemini_response t of None \<Rightarrow> True | Some a \<Rightarrow> well_formed a"
    by (auto simp: parse_via_span split: option.splits json.splits
        dest: analysis_from_dict_well_formed)
next
  assume "t = pre @ post \<and> CHR ''{'' \<notin> set pre \<and> CHR ''}'' \<notin> set post"
  then have "json_span t = []"
    using json_span_no_pair by blast
  then show "parse_gemini_response t = None"
    by (simp add: parse_via_span json_loads_Nil)
next
  assume "json_loads (json_span t) = None"
  then show "parse_gemini_response t = None"
    by (simp add: parse_via_span)
next
  assume "json_loads (json_span t) = Some (JObject parsed)
        \<and> dict_get parsed ''reason'' = Some (JString r) \<and> strip r = []"
  then show "parse_gemini_response t = None"
    by (simp add: parse_via_span analysis_from_dict_def LLMAnalysis_new_def
        split: option.splits json.splits)
next
  assume "json_loads (json_span t) = Some (JObject parsed)
        \<and> dict_get parsed ''confidence'' = Some (JNumber q) \<and> (q < 0 \<or> 1 < q)"
  then show "parse_gemini_response t = None"
    by (auto simp: parse_via_span analysis_from_dict_def LLMAnalysis_new_def
        split: option.splits json.splits)
qed

text \<open>
  One input for each of the four refusals, and one that is accepted.
\<close>

theorem parse_gemini_response_total_witness:
  \<open>parse_gemini_response ''} text {'' = None
   \<and> parse_gemini_response ''{"action": Backend}'' = None
   \<and> parse_gemini_response ''{"action":"Code","reason":"   "}'' = None
   \<and> parse_gemini_response ''{"action":"Code","reason":"bug","confidence":1.5}'' = None
   \<and> (\<exists>a. parse_gemini_response ''{"action":"Code","reason":"bug","confidence":0.92}'' = Some a
          \<and> well_formed a \<and> confidence a = Some 0.92)\<close>
proof -
  let ?blank = \<open>''{"action":"Code","reason":"   "}''\<close>
  let ?high = \<open>''{"action":"Code","reason":"bug","confidence":1.5}''\<close>
  let ?good = \<open>''{"action":"Code","reason":"bug","confidence":0.92}''\<close>
  have a: "''} text {'' = ''} text '' @ ''{'' \<and> CHR ''{'' \<notin> set ''} text '' \<and> CHR ''}'' \<notin> set ''{''"
    by simp
  have b: \<open>json_loads (json_span ''{"action": Backend}'') = None\<close>
    by code_simp
  have c: "json_loads (json_span ?blank)
             = Some (JObject [(''action'', JString ''Code''), (''reason'', JString ''   '')])"
    by code_simp
  have c': "dict_get [(''action'', JString ''Code''), (''reason'', JString ''   '')] ''reason''
              = Some (JString ''   '') \<and> strip ''   '' = []"
    by code_simp
  have d: "json_loads (json_span ?high)
             = Some (JObject [(''action'', JString ''Code''), (''reason'', JString ''bug''),
                              (''confidence'', JNumber 1.5)])"
    by code_simp
  have d': "dict_get [(''action'', JString ''Code''), (''reason'', JString ''bug''),
                      (''confidence'', JNumber 1.5)] ''confidence'' = Some (JNumber 1.5)"
    by (simp add: dict_get_def)
  have e: "parse_gemini_response ?good = Some \<lparr>action = CODE, reason = ''bug'', confidence = Some 0.92\<rparr>"
    by code_simp
  from parse_gemini_response_total [of "''} text {''" "''} text ''" "''{''"] a
  have 1: "parse_gemini_response ''} text {'' = None" by blast
  from parse_gemini_response_total [of \<open>''{"action": Backend}''\<close>] b
  have 2: \<open>parse_gemini_response ''{"action": Backend}'' = None\<close> by blast
  from parse_gemini_response_total [of ?blank _ _ _ "''   ''"] c c'
  have 3: "parse_gemini_response ?blank = None" by blast
  from parse_gemini_response_total [of ?high _ _ _ _ "1.5"] d d'
  have 4: "parse_gemini_response ?high = None" by force
  from parse_gemini_response_total [of ?good] e
  have 5: "well_formed \<lparr>action = CODE, reason = ''bug'', confidence = Some 0.92\<rparr>" by simp
  from 1 2 3 4 5 e show ?thesis by simp
qed

section \<open>Properties of the classifier client\<close>

text \<open>
  The body of \<open>analyze_email\<close> never raises, so the decorator makes one attempt and
  returns what the body returned.
\<close>

lemma analyze_email_returns:
  "analyze_email n gen = (analyze_email_body (gen 1), 1)"
  by (cases "gen 1"; cases "nat n - 1")
     (auto simp: analyze_email_def retry_def analyze_email_body_def)

text \<open>
  Claim C3 says that a transport error raised while querying the classifier is retried
  and, once the attempts are used up, raised to the caller. With three attempts allowed
  and a classifier that raises on every call, \<open>analyze_email\<close> returns \<open>None\<close> after
  a single attempt.
\<close>

theorem transport_error_becomes_None:
  "analyze_email 3 (\<lambda>k. Raises ''503 Service Unavailable'') = (Returns None, 1)"
  by (simp add: analyze_email_returns analyze_email_body_def)

section \<open>Properties of a processing cycle\<close>

text \<open>
  Claim C1. A cycle that fetches one unread email whose id is not in the audit log, and
  whose analysis yields no result, returns the counters processed 1, successful 0,
  failed 1, skipped 0; it appends one audit record with \<open>success = False\<close>, action
  \<open>Backend\<close> and an error message that is not empty; it hands one error notification,
  addressed to the backend team, to the sender; and it marks no message as read.
\<close>

theorem failed_analysis_cycle:
  assumes "unread ev = Returns [e]"
    and "\<not> check_duplicate (audit w) (message_id e)"
    and "fst (analyze_email (retry_attempts cfg) (gemini ev e)) = Returns None"
  shows "\<exists>rec note msg.
           process_alerts cfg ev w =
             (\<lparr>processed_count = 1, successful_count = 0, failed_count = 1,
               skipped_count = 0, errors = []\<rparr>,
              w\<lparr>audit := audit w @ [rec], outbox := outbox w @ [note]\<rparr>)
         \<and> original_message_id rec = message_id e
         \<and> success rec = False
         \<and> action_value (action_taken rec) = ''Backend''
         \<and> error_message rec = Some msg \<and> msg \<noteq> []
         \<and> note = error_notification cfg msg e
         \<and> recipient note = backend_team_email cfg
         \<and> read_marks (snd (process_alerts cfg ev w)) = read_marks w"
proof -
  let ?note = "error_notification cfg ''LLM analysis failed'' e"
  let ?rec = "ProcessedEmail_new ev e BACKEND ''LLM analysis failed''
                (backend_team_email cfg) False (Some ''LLM analysis failed'')"
  have single: "process_single_email cfg ev e w
                  = (False, w\<lparr>audit := audit w @ [?rec], outbox := outbox w @ [?note]\<rparr>)"
    using assms(3)
    by (simp add: process_single_email_def Let_def save_record_def save_processed_email_def
        send_error_notification_def send_summary_email_def)
  have filt: "filter_unprocessed_emails (audit w) [e] = [e]"
    using assms(2) by (simp add: filter_unprocessed_emails_def)
  have cyc: "process_alerts cfg ev w =
             (\<lparr>processed_count = 1, successful_count = 0, failed_count = 1,
               skipped_count = 0, errors = []\<rparr>,
              w\<lparr>audit := audit w @ [?rec], outbox := outbox w @ [?note]\<rparr>)"
    using assms(1) filt single by (simp add: process_alerts_def Let_def)
  have rcp: "recipient ?note = backend_team_email cfg"
    by (simp add: error_notification_def Let_def)
  show ?thesis
    apply (rule exI [of _ ?rec], rule exI [of _ ?note], rule exI [of _ "''LLM analysis failed''"])
    using cyc rcp by (simp add: ProcessedEmail_new_def)
qed

text \<open>
  The scenario of the specification: the classifier answers with text that is not JSON.
\<close>

theorem failed_analysis_cycle_witness:
  "\<exists>rec note msg.
     process_alerts test_config
        (sample_env (Returns [sample_email_data]) (Returns ''This is not valid JSON'') True True)
        empty_world =
       (\<lparr>processed_count = 1, successful_count = 0, failed_count = 1,
         skipped_count = 0, errors = []\<rparr>,
        \<lparr>audit = [rec], outbox = [note], read_marks = []\<rparr>)
     \<and> original_message_id rec = ''test_message_123''
     \<and> success rec = False
     \<and> action_value (action_taken rec) = ''Backend''
     \<and> error_message rec = Some msg \<and> msg \<noteq> []
     \<and> recipient note = ''backend@company.com''"
proof -
  let ?ev = "sample_env (Returns [sample_email_data]) (Returns ''This is not valid JSON'') True True"
  have p: "parse_gemini_response ''This is not valid JSON'' = None"
    by code_simp
  have h1: "unread ?ev = Returns [sample_email_data]"
    by (simp add: sample_env_def)
  have h2: "\<not> check_duplicate (audit empty_world) (message_id sample_email_data)"
    by (simp add: check_duplicate_def empty_world_def)
  have h3: "fst (analyze_email (retry_attempts test_config) (gemini ?ev sample_email_data)) = Returns None"
    by (simp add: analyze_email_returns analyze_email_body_def sample_env_def p)
  from failed_analysis_cycle [OF h1 h2 h3]
  show ?thesis
    by (auto simp: empty_world_def test_config_def sample_email_data_def)
qed

section \<open>Properties of the one-shot mode\<close>







end
